theory Spec2Isabelle
  imports Complex_Main
begin

section \<open>Python values used by the media manager\<close>

text \<open>
  The module is Python 2 code (\<open>anima/utils/__init__.py\<close>, class \<open>MediaManager\<close>).
  Every exception the modelled code can raise is a constructor of \<open>error\<close>; a
  computation that may raise returns \<open>error + 'a\<close>, with \<open>Inl\<close> for the exception.
\<close>

datatype error =
    IndexError | ValueError | KeyError | AttributeError | TypeError
  | ZeroDivisionError | OverflowError | RuntimeError | IOError | OSError
  | UnicodeEncodeError

text \<open>A probe record (\<open>stream_info\<close>, \<open>video_info\<close>) is a \<open>dict\<close> from \<open>str\<close> to \<open>str\<close>.\<close>

type_synonym info = "string \<rightharpoonup> string"

text \<open>\<open>str.strip()\<close> removes the ASCII whitespace characters from both ends.\<close>

definition is_space :: "char \<Rightarrow> bool" where
  "is_space c = (c \<in> set [CHR '' '', CHR 0x09, CHR 0x0A, CHR 0x0B, CHR 0x0C, CHR 0x0D])"

definition strip :: "string \<Rightarrow> string" where
  "strip s = rev (dropWhile is_space (rev (dropWhile is_space s)))"

text \<open>\<open>s.split(c)\<close> for a one-character separator: one more part than separators.\<close>

fun split_on :: "char \<Rightarrow> string \<Rightarrow> string list" where
  "split_on c [] = [[]]"
| "split_on c (x # xs) =
     (if x = c then [] # split_on c xs
      else (case split_on c xs of p # ps \<Rightarrow> (x # p) # ps | [] \<Rightarrow> [[x]]))"

section \<open>get_video_info: the probe-output parser\<close>

text \<open>
  \<open>flag, value = line.split('='); stream_info[flag] = value\<close>: the tuple assignment
  raises \<open>ValueError\<close> unless the split has exactly two parts. The caller runs it only
  when \<open>'=' in line\<close>.
\<close>

definition store_field :: "string \<Rightarrow> info \<Rightarrow> error + info" where
  "store_field line d =
     (case split_on CHR ''='' line of
        [flag, val] \<Rightarrow> Inr (d(flag \<mapsto> val))
      | _ \<Rightarrow> Inl ValueError)"

text \<open>
  The inner loop, entered with \<open>line\<close> holding the opening marker:
  \<^verbatim>\<open>
  while line != '[/STREAM]':
      if '=' in line:
          flag, value = line.split('=')
          stream_info[flag] = value
      line = output_buffer.pop(0).strip()
  \<close>
  \<open>pop(0)\<close> on the empty buffer raises \<open>IndexError\<close>; nothing catches it here. The
  result is the record and the rest of the buffer.
\<close>

fun scan_block :: "string \<Rightarrow> string \<Rightarrow> info \<Rightarrow> string list \<Rightarrow> error + (info \<times> string list)" where
  "scan_block closing line d buf =
     (if line = closing then Inr (d, buf)
      else
        (case (if CHR ''='' \<in> set line then store_field line d else Inr d) of
           Inl e \<Rightarrow> Inl e
         | Inr d' \<Rightarrow>
             (case buf of
                [] \<Rightarrow> Inl IndexError
              | l # buf' \<Rightarrow> scan_block closing (strip l) d' buf')))"

text \<open>
  The end of the outer loop body:
  \<^verbatim>\<open>
  try:
      line = output_buffer.pop(0).strip()
  except IndexError:
      line = None
  \<close>
\<close>

definition next_line :: "string list \<Rightarrow> string option \<times> string list" where
  "next_line buf = (case buf of [] \<Rightarrow> (None, []) | l # buf' \<Rightarrow> (Some (strip l), buf'))"

declare scan_block.simps [simp del]

lemma scan_block_length:
  "scan_block closing line d buf = Inr (d', buf') \<Longrightarrow> length buf' \<le> length buf"
proof (induction closing line d buf rule: scan_block.induct)
  case (1 closing line d buf)
  show ?case
  proof (cases "line = closing")
    case True
    with "1.prems" show ?thesis
      by (subst (asm) scan_block.simps) simp
  next
    case False
    from "1.prems" False obtain d1 l rest where
      st: "(if CHR ''='' \<in> set line then store_field line d else Inr d) = Inr d1"
      and buf: "buf = l # rest"
      and rec: "scan_block closing (strip l) d1 rest = Inr (d', buf')"
      by (subst (asm) scan_block.simps) (auto split: sum.splits list.splits)
    from "1.IH" [OF False st buf rec] buf show ?thesis
      by simp
  qed
qed

text \<open>
  The outer loop over the stream probe's lines (\<open>while line is not None\<close>); \<open>acc\<close> is
  \<open>media_info['stream_info']\<close>. Each block starts from a fresh \<open>stream_info = {}\<close>, and
  \<open>copy.deepcopy\<close> of the finished record is the record itself here.
\<close>

function scan_streams :: "string option \<Rightarrow> info list \<Rightarrow> string list \<Rightarrow> error + info list" where
  "scan_streams None acc buf = Inr acc"
| "scan_streams (Some line) acc buf =
     (if line = ''[STREAM]'' then
        (case scan_block ''[/STREAM]'' line Map.empty buf of
           Inl e \<Rightarrow> Inl e
         | Inr (d, buf') \<Rightarrow>
             (case next_line buf' of
                (None, _) \<Rightarrow> Inr (acc @ [d])
              | (Some l, buf'') \<Rightarrow> scan_streams (Some l) (acc @ [d]) buf''))
      else
        (case next_line buf of
           (None, _) \<Rightarrow> Inr acc
         | (Some l, buf') \<Rightarrow> scan_streams (Some l) acc buf'))"
  by pat_completeness auto
termination
proof (relation "measure (\<lambda>(line, acc, buf). length buf)")
  show "wf (measure (\<lambda>(line, acc, buf). length buf))"
    by simp
next
  fix line :: string and acc :: "info list" and buf x2 x y xa ya x2a
  assume "scan_block ''[/STREAM]'' line Map.empty buf = Inr x2"
    and "(x, y) = x2" and "(xa, ya) = next_line y" and "xa = Some x2a"
  then show "((Some x2a, acc @ [x], ya), (Some line, acc, buf))
      \<in> measure (\<lambda>(line, acc, buf). length buf)"
    by (auto simp: next_line_def split: list.splits dest!: scan_block_length)
next
  fix line :: string and acc :: "info list" and buf x y x2
  assume "(x, y) = next_line buf" and "x = Some x2"
  then show "((Some x2, acc, y), (Some line, acc, buf))
      \<in> measure (\<lambda>(line, acc, buf). length buf)"
    by (auto simp: next_line_def split: list.splits)
qed

text \<open>
  The first line is read outside any \<open>try\<close>:
  \<open>line = output_buffer.pop(0).strip()\<close> raises \<open>IndexError\<close> on an empty probe output.
\<close>

definition get_stream_info :: "string list \<Rightarrow> error + info list" where
  "get_stream_info output_buffer =
     (case output_buffer of
        [] \<Rightarrow> Inl IndexError
      | l # buf \<Rightarrow> scan_streams (Some (strip l)) [] buf)"

text \<open>
  The second loop reads the format probe's lines. \<open>video_info\<close> is created once, before
  both loops, and never reset: a later \<open>[FORMAT]\<close> block writes into the same \<open>dict\<close>.
  \<open>media_info['video_info']\<close> stays \<open>None\<close> until a block has been closed.
\<close>

function scan_format ::
  "string option \<Rightarrow> info \<Rightarrow> info option \<Rightarrow> string list \<Rightarrow> error + info option" where
  "scan_format None vi res buf = Inr res"
| "scan_format (Some line) vi res buf =
     (if line = ''[FORMAT]'' then
        (case scan_block ''[/FORMAT]'' line vi buf of
           Inl e \<Rightarrow> Inl e
         | Inr (vi', buf') \<Rightarrow>
             (case next_line buf' of
                (None, _) \<Rightarrow> Inr (Some vi')
              | (Some l, buf'') \<Rightarrow> scan_format (Some l) vi' (Some vi') buf''))
      else
        (case next_line buf of
           (None, _) \<Rightarrow> Inr res
         | (Some l, buf') \<Rightarrow> scan_format (Some l) vi res buf'))"
  by pat_completeness auto
termination
proof (relation "measure (\<lambda>(line, vi, res, buf). length buf)")
  show "wf (measure (\<lambda>(line, vi, res, buf). length buf))"
    by simp
next
  fix line :: string and vi :: info and res :: "info option" and buf x2 x y xa ya x2a
  assume "scan_block ''[/FORMAT]'' line vi buf = Inr x2"
    and "(x, y) = x2" and "(xa, ya) = next_line y" and "xa = Some x2a"
  then show "((Some x2a, x, Some x, ya), (Some line, vi, res, buf))
      \<in> measure (\<lambda>(line, vi, res, buf). length buf)"
    by (auto simp: next_line_def split: list.splits dest!: scan_block_length)
next
  fix line :: string and vi :: info and res :: "info option" and buf x y x2
  assume "(x, y) = next_line buf" and "x = Some x2"
  then show "((Some x2, vi, res, y), (Some line, vi, res, buf))
      \<in> measure (\<lambda>(line, vi, res, buf). length buf)"
    by (auto simp: next_line_def split: list.splits)
qed

definition get_format_info :: "string list \<Rightarrow> error + info option" where
  "get_format_info output_buffer =
     (case output_buffer of
        [] \<Rightarrow> Inl IndexError
      | l # buf \<Rightarrow> scan_format (Some (strip l)) Map.empty None buf)"

text \<open>
  \<open>get_video_info\<close> runs \<open>ffprobe\<close> twice; the two captured line lists are the inputs
  here. The result is the \<open>media_info\<close> dictionary, with \<open>info_video\<close> for its key
  \<open>'video_info'\<close> and \<open>info_streams\<close> for \<open>'stream_info'\<close>.
\<close>

record media_info =
  info_video :: "info option"
  info_streams :: "info list"

definition get_video_info :: "string list \<Rightarrow> string list \<Rightarrow> error + media_info" where
  "get_video_info stream_lines format_lines =
     (case get_stream_info stream_lines of
        Inl e \<Rightarrow> Inl e
      | Inr streams \<Rightarrow>
          (case get_format_info format_lines of
             Inl e \<Rightarrow> Inl e
           | Inr fmt \<Rightarrow> Inr \<lparr>info_video = fmt, info_streams = streams\<rparr>))"

section \<open>generate_video_thumbnail: choosing the video stream\<close>

text \<open>
  \<^verbatim>\<open>
  video_stream = None
  for stream in media_info['stream_info']:
      if stream['codec_type'] == 'video':
          video_stream = stream
  \<close>
  The loop has no \<open>break\<close>; \<open>stream['codec_type']\<close> raises \<open>KeyError\<close> on a record
  without that key.
\<close>

fun select_video_stream :: "info list \<Rightarrow> info option \<Rightarrow> error + info option" where
  "select_video_stream [] video_stream = Inr video_stream"
| "select_video_stream (stream # rest) video_stream =
     (case stream ''codec_type'' of
        None \<Rightarrow> Inl KeyError
      | Some c \<Rightarrow>
          select_video_stream rest (if c = ''video'' then Some stream else video_stream))"

definition is_video :: "info \<Rightarrow> bool" where
  "is_video stream = (stream ''codec_type'' = Some ''video'')"

section \<open>generate_video_thumbnail: the substitution of missing frames\<close>

text \<open>
  \<open>ex\<close> is \<open>os.path.exists\<close> on the file system as the three extractions left it; nothing
  is written between the checks. The state is the triple
  \<open>(start_thumb_path, mid_thumb_path, end_thumb_path)\<close>, and each definition is one of
  the three \<open>if\<close> statements of the source.
\<close>

type_synonym paths = "string \<times> string \<times> string"

definition check_start :: "(string \<Rightarrow> bool) \<Rightarrow> paths \<Rightarrow> paths" where
  "check_start ex p =
     (case p of (s, m, e) \<Rightarrow>
        if \<not> ex s then
          (if ex m then (m, m, e)
           else if ex e then (e, e, e)
           else (s, m, e))
        else (s, m, e))"

definition check_mid :: "(string \<Rightarrow> bool) \<Rightarrow> paths \<Rightarrow> paths" where
  "check_mid ex p =
     (case p of (s, m, e) \<Rightarrow>
        if \<not> ex m then
          (if ex s then (s, s, e)
           else (e, e, e))
        else (s, m, e))"

definition check_end :: "(string \<Rightarrow> bool) \<Rightarrow> paths \<Rightarrow> paths" where
  "check_end ex p =
     (case p of (s, m, e) \<Rightarrow>
        if \<not> ex e then
          (if ex m then (s, m, m)
           else (s, s, s))
        else (s, m, e))"

definition resolve_thumb_paths :: "(string \<Rightarrow> bool) \<Rightarrow> paths \<Rightarrow> paths" where
  "resolve_thumb_paths ex p = check_end ex (check_mid ex (check_start ex p))"

text \<open>
  The three rules as the specification words them, for comparison with the code:
  \<^item> start missing: the mid frame if it exists, else the end frame for both start and mid;
  \<^item> mid missing: the start frame if it exists, else start and mid collapse to the end frame;
  \<^item> end missing: the mid frame if it exists, else mid and end collapse to the start frame.
\<close>

definition spec_rule_start :: "(string \<Rightarrow> bool) \<Rightarrow> paths \<Rightarrow> paths" where
  "spec_rule_start ex p =
     (case p of (s, m, e) \<Rightarrow>
        if ex s then (s, m, e) else if ex m then (m, m, e) else (e, e, e))"

definition spec_rule_mid :: "(string \<Rightarrow> bool) \<Rightarrow> paths \<Rightarrow> paths" where
  "spec_rule_mid ex p =
     (case p of (s, m, e) \<Rightarrow>
        if ex m then (s, m, e) else if ex s then (s, s, e) else (e, e, e))"

definition spec_rule_end :: "(string \<Rightarrow> bool) \<Rightarrow> paths \<Rightarrow> paths" where
  "spec_rule_end ex p =
     (case p of (s, m, e) \<Rightarrow>
        if ex e then (s, m, e) else if ex m then (s, m, m) else (s, s, s))"

definition spec_substitution :: "(string \<Rightarrow> bool) \<Rightarrow> paths \<Rightarrow> paths" where
  "spec_substitution ex p = spec_rule_end ex (spec_rule_mid ex (spec_rule_start ex p))"

section \<open>Paths and formatting helpers of the standard library\<close>

text \<open>
  \<open>os.path\<close> is modelled as \<open>posixpath\<close>. \<open>rfind\<close> is \<open>str.rfind\<close> for a one-character
  needle: the index of its last occurrence, or \<open>-1\<close>.
\<close>

definition rfind :: "char \<Rightarrow> string \<Rightarrow> int" where
  "rfind c p =
     (if c \<in> set p then int (length p) - 1 - int (length (takeWhile (\<lambda>x. x \<noteq> c) (rev p)))
      else - 1)"

text \<open>
  \<open>os.path.splitext\<close>: the extension starts at the last dot of the last component,
  unless that component has only dots before it.
\<close>

definition splitext :: "string \<Rightarrow> string \<times> string" where
  "splitext p =
     (let sepIndex = rfind CHR ''/'' p; dotIndex = rfind CHR ''.'' p
      in if dotIndex > sepIndex \<and>
            list_ex (\<lambda>c. c \<noteq> CHR ''.'') (drop (nat (sepIndex + 1)) (take (nat dotIndex) p))
         then (take (nat dotIndex) p, drop (nat dotIndex) p)
         else (p, []))"

definition basename :: "string \<Rightarrow> string" where
  "basename p = drop (nat (rfind CHR ''/'' p + 1)) p"

definition rstrip_slash :: "string \<Rightarrow> string" where
  "rstrip_slash p = rev (dropWhile (\<lambda>c. c = CHR ''/'') (rev p))"

definition dirname :: "string \<Rightarrow> string" where
  "dirname p =
     (let head = take (nat (rfind CHR ''/'' p + 1)) p
      in if head \<noteq> [] \<and> list_ex (\<lambda>c. c \<noteq> CHR ''/'') head then rstrip_slash head else head)"

fun join_step :: "string \<Rightarrow> string \<Rightarrow> string" where
  "join_step path b =
     (if b \<noteq> [] \<and> hd b = CHR ''/'' then b
      else if path = [] \<or> last path = CHR ''/'' then path @ b
      else path @ ''/'' @ b)"

definition join :: "string \<Rightarrow> string list \<Rightarrow> string" where
  "join a ps = foldl join_step a ps"

definition lower_char :: "char \<Rightarrow> char" where
  "lower_char c =
     (case map_of (zip ''ABCDEFGHIJKLMNOPQRSTUVWXYZ'' ''abcdefghijklmnopqrstuvwxyz'') c of
        Some l \<Rightarrow> l
      | None \<Rightarrow> c)"

definition lower :: "string \<Rightarrow> string" where
  "lower s = map lower_char s"

text \<open>\<open>'%s' % n\<close> for an \<open>int\<close>: the decimal numeral.\<close>

definition digit_char :: "nat \<Rightarrow> char" where
  "digit_char d = ''0123456789'' ! d"

fun digits_of :: "nat \<Rightarrow> string" where
  "digits_of n =
     (if n < 10 then [digit_char n] else digits_of (n div 10) @ [digit_char (n mod 10)])"

declare digits_of.simps [simp del]

definition str_of_int :: "int \<Rightarrow> string" where
  "str_of_int i = (if i < 0 then CHR ''-'' # digits_of (nat (- i)) else digits_of (nat i))"

section \<open>The converters: option sets handed to ffmpeg\<close>

text \<open>
  An option value is a string, a number or a list (\<open>ffmpeg\<close> repeats the flag for each
  element of a list). The keyword dictionary passed to \<open>self.ffmpeg(**conversion_options)\<close>
  is a map from option name to value; \<open>dict.update\<close> is \<open>++\<close>. Each definition gives
  the output path the builder computes together with that dictionary, as it stands at
  the call of \<open>ffmpeg\<close>; the call itself, an external process, is not modelled.
\<close>

datatype optval = OStr string | ONum int | OList "string list"

type_synonym options = "string \<rightharpoonup> optval"

definition given_options :: "options option \<Rightarrow> options" where
  "given_options opts = (case opts of None \<Rightarrow> Map.empty | Some d \<Rightarrow> d)"

definition convert_to_h264 :: "string \<Rightarrow> string \<Rightarrow> options option \<Rightarrow> string \<times> options" where
  "convert_to_h264 input_path output_path opts =
     (let out = fst (splitext output_path) @ ''.mp4'';
          conversion_options =
            [''i'' \<mapsto> OStr input_path,
             ''vcodec'' \<mapsto> OStr ''libx264'',
             ''profile:v'' \<mapsto> OStr ''main'',
             ''g'' \<mapsto> ONum 1,
             ''b:v'' \<mapsto> OStr ''4096k'',
             ''o'' \<mapsto> OStr out]
      in (out, conversion_options ++ given_options opts))"

definition convert_to_webm :: "int \<Rightarrow> string \<Rightarrow> string \<Rightarrow> options option \<Rightarrow> string \<times> options" where
  "convert_to_webm web_video_bitrate input_path output_path opts =
     (let out = fst (splitext output_path) @ ''.webm'';
          conversion_options =
            [''i'' \<mapsto> OStr input_path,
             ''vcodec'' \<mapsto> OStr ''libvpx'',
             ''b:v'' \<mapsto> OStr (str_of_int web_video_bitrate @ ''k''),
             ''o'' \<mapsto> OStr out]
      in (out, conversion_options ++ given_options opts))"

definition convert_to_prores :: "string \<Rightarrow> string \<Rightarrow> options option \<Rightarrow> string \<times> options" where
  "convert_to_prores input_path output_path opts =
     (let out = fst (splitext output_path) @ ''.mov'';
          conversion_options =
            [''i'' \<mapsto> OStr input_path,
             ''probesize'' \<mapsto> ONum 5000000,
             ''f'' \<mapsto> OStr ''image2'',
             ''profile:v'' \<mapsto> ONum 3,
             ''qscale:v'' \<mapsto> ONum 13,
             ''vcodec'' \<mapsto> OStr ''prores_ks'',
             ''vendor'' \<mapsto> OStr ''ap10'',
             ''pix_fmt'' \<mapsto> OStr ''yuv422p10le'',
             ''o'' \<mapsto> OStr out]
      in (out, conversion_options ++ given_options opts))"

definition convert_to_mjpeg :: "string \<Rightarrow> string \<Rightarrow> options option \<Rightarrow> string \<times> options" where
  "convert_to_mjpeg input_path output_path opts =
     (let out = fst (splitext output_path) @ ''.mov'';
          conversion_options =
            [''i'' \<mapsto> OStr input_path,
             ''probesize'' \<mapsto> ONum 5000000,
             ''f'' \<mapsto> OStr ''image2'',
             ''qscale:v'' \<mapsto> ONum 1,
             ''vcodec'' \<mapsto> OStr ''mjpeg'',
             ''vendor'' \<mapsto> OStr ''ap10'',
             ''pix_fmt'' \<mapsto> OStr ''yuv422p'',
             ''o'' \<mapsto> OStr out]
      in (out, conversion_options ++ given_options opts))"

definition convert_to_animated_gif :: "string \<Rightarrow> string \<Rightarrow> options option \<Rightarrow> string \<times> options" where
  "convert_to_animated_gif input_path output_path opts =
     (let out = fst (splitext output_path) @ ''.gif'';
          conversion_options =
            [''i'' \<mapsto> OStr input_path,
             ''o'' \<mapsto> OStr out]
      in (out, conversion_options ++ given_options opts))"

section \<open>Dispatch by file extension\<close>

definition image_formats :: "string list" where
  "image_formats =
     [''.gif'', ''.ico'', ''.iff'', ''.jpg'', ''.jpeg'', ''.png'', ''.tga'', ''.tif'',
      ''.tiff'', ''.bmp'', ''.exr'']"

definition video_formats :: "string list" where
  "video_formats =
     [''.3gp'', ''.a64'', ''.asf'', ''.avi'', ''.dnxhd'', ''.f4v'', ''.filmstrip'',
      ''.flv'', ''.h261'', ''.h263'', ''.h264'', ''.ipod'', ''.m4v'', ''.matroska'',
      ''.mjpeg'', ''.mkv'', ''.mov'', ''.mp4'', ''.mpeg'', ''.mpg'', ''.mpeg1video'',
      ''.mpeg2video'', ''.mv'', ''.mxf'', ''.ogg'', ''.rm'', ''.swf'', ''.vc1'',
      ''.vcd'', ''.vob'', ''.webm'']"

text \<open>
  What the uploads call but this module does not decide is an input of the model: the
  outcome of writing the upload to disk, of the image library and of the video tools on
  a given file, of \<open>os.makedirs\<close> and \<open>shutil.move\<close>, and the repository's path
  translation. Each is called at most once per argument during one upload.
\<close>

text \<open>
  A file name reaches the uploads as a byte string (\<open>str\<close>) or as a \<open>unicode\<close> object.
  Either is kept as its list of characters; a character outside the ASCII range is one
  with the top bit set. \<open>str(x)\<close> returns a byte string as it is and encodes a
  \<open>unicode\<close> object with the ASCII codec, which raises \<open>UnicodeEncodeError\<close> on a
  character outside that range.
\<close>

datatype pytext = ByteString string | UnicodeString string

fun chars_of :: "pytext \<Rightarrow> string" where
  "chars_of (ByteString s) = s"
| "chars_of (UnicodeString s) = s"

definition is_ascii :: "char \<Rightarrow> bool" where
  "is_ascii c = (\<not> digit7 c)"

fun py_str :: "pytext \<Rightarrow> error + string" where
  "py_str (ByteString s) = Inr s"
| "py_str (UnicodeString s) = (if list_all is_ascii s then Inr s else Inl UnicodeEncodeError)"

text \<open>
  \<open>upload_file\<close> passes the name through \<open>format_filename\<close>, which decodes a byte
  string, so the path it returns is always a \<open>unicode\<close> object; the field gives its
  characters.
\<close>

record env =
  upload_file :: "string \<Rightarrow> pytext \<Rightarrow> error + string"
  generate_image_for_web :: "string \<Rightarrow> error + string"
  generate_image_thumbnail :: "string \<Rightarrow> error + string"
  generate_video_for_web :: "string \<Rightarrow> error + string"
  generate_video_thumbnail :: "string \<Rightarrow> error + string"
  makedirs :: "string \<Rightarrow> error option"
  move :: "string \<Rightarrow> string \<Rightarrow> error option"
  repo_path :: "string \<Rightarrow> string"

definition generate_media_for_web :: "env \<Rightarrow> string \<Rightarrow> error + string" where
  "generate_media_for_web env file_full_path =
     (let extension = lower (snd (splitext file_full_path))
      in if extension \<in> set image_formats then generate_image_for_web env file_full_path
         else if extension \<in> set video_formats then generate_video_for_web env file_full_path
         else Inl RuntimeError)"

definition generate_thumbnail :: "env \<Rightarrow> string \<Rightarrow> error + string" where
  "generate_thumbnail env file_full_path =
     (let extension = lower (snd (splitext file_full_path))
      in if extension \<in> set image_formats then generate_image_thumbnail env file_full_path
         else if extension \<in> set video_formats then generate_video_thumbnail env file_full_path
         else Inl RuntimeError)"

section \<open>Links and the uploads\<close>

text \<open>
  \<open>Link\<close> objects are mutable and shared: the root link is appended to the parent's list
  before its \<open>thumbnail\<close> attribute is assigned. The model keeps them in a store, a list
  indexed by address; a new object gets the next address and starts with
  \<open>thumbnail = None\<close>. \<open>parent\<close> is the parent's collection (\<open>task.references\<close> or
  \<open>version.outputs\<close>), a list of addresses.
\<close>

record link =
  full_path :: string
  original_filename :: string
  thumbnail :: "nat option"

record world =
  links :: "link list"
  parent :: "nat list"

definition new_link :: "string \<Rightarrow> string \<Rightarrow> world \<Rightarrow> world \<times> nat" where
  "new_link fp name w =
     (w\<lparr>links := links w @ [\<lparr>full_path = fp, original_filename = name, thumbnail = None\<rparr>]\<rparr>,
      length (links w))"

definition set_thumbnail :: "nat \<Rightarrow> nat \<Rightarrow> world \<Rightarrow> world" where
  "set_thumbnail a b w = w\<lparr>links := (links w)[a := (links w ! a)\<lparr>thumbnail := Some b\<rparr>]\<rparr>"

text \<open>
  \<^verbatim>\<open>
  try:
      os.makedirs(os.path.dirname(path))
  except OSError:  # path exists
      pass
  shutil.move(temp_path, path)
  \<close>
  The result is the exception that leaves the two statements, if any.
\<close>

definition move_to_repository :: "env \<Rightarrow> string \<Rightarrow> string \<Rightarrow> error option" where
  "move_to_repository env temp_path path =
     (case makedirs env (dirname path) of
        Some e \<Rightarrow> if e = OSError then move env temp_path path else Some e
      | None \<Rightarrow> move env temp_path path)"

text \<open>
  One derivative stage of \<open>upload_version_output\<close>: the body of the \<open>try\<close> with its
  \<open>except RuntimeError: pass\<close>. \<open>generate\<close> is \<open>generate_media_for_web\<close> with folder
  \<open>ForWeb\<close>, or \<open>generate_thumbnail\<close> with folder \<open>Thumbnail\<close>. The link variable is
  assigned before the file is moved, so a \<open>RuntimeError\<close> from the move leaves it set.
\<close>

definition version_output_stage ::
  "env \<Rightarrow> (env \<Rightarrow> string \<Rightarrow> error + string) \<Rightarrow> string \<Rightarrow> string \<Rightarrow> string \<Rightarrow> string \<Rightarrow> world
     \<Rightarrow> error + (world \<times> nat option)" where
  "version_output_stage env generate folder file_full_path base_name filename w =
     (case generate env file_full_path of
        Inl e \<Rightarrow> if e = RuntimeError then Inr (w, None) else Inl e
      | Inr temp_full_path \<Rightarrow>
          (let extension = snd (splitext temp_full_path);
               path = join (dirname file_full_path) [folder, base_name @ extension];
               (w', l) = new_link (repo_path env path) filename w
           in case move_to_repository env temp_full_path path of
                None \<Rightarrow> Inr (w', Some l)
              | Some e \<Rightarrow> if e = RuntimeError then Inr (w', Some l) else Inl e))"

text \<open>
  \<open>upload_version_output(version, file_object, filename)\<close>; \<open>absolute_path\<close> is
  \<open>version.absolute_path\<close> and \<open>parent w\<close> is \<open>version.outputs\<close>. The result is the
  new state and the address of the returned root link. The root link is built from
  \<open>full_path = str(version_output_file_full_path)\<close> and
  \<open>original_filename = str(filename)\<close>, evaluated in this order and outside any \<open>try\<close>;
  the two derivative links take \<open>filename\<close> as it is.
\<close>

definition link_version_output :: "nat \<Rightarrow> nat option \<Rightarrow> nat option \<Rightarrow> world \<Rightarrow> world" where
  "link_version_output l web_version_link thumbnail_link w =
     (let w1 = w\<lparr>parent := parent w @ [l]\<rparr>
      in case web_version_link of
           None \<Rightarrow> w1
         | Some wa \<Rightarrow>
             (let w2 = set_thumbnail l wa w1
              in case thumbnail_link of
                   None \<Rightarrow> w2
                 | Some ta \<Rightarrow> set_thumbnail wa ta w2))"

definition upload_version_output :: "env \<Rightarrow> world \<Rightarrow> string \<Rightarrow> pytext \<Rightarrow> error + (world \<times> nat)" where
  "upload_version_output env w absolute_path filename =
     (let file_path = join absolute_path [''Outputs/Stalker_Pyramid/'']
      in case upload_file env file_path filename of
           Inl e \<Rightarrow> Inl e
         | Inr file_full_path \<Rightarrow>
             (let base_name = fst (splitext (basename file_full_path))
              in case py_str (UnicodeString file_full_path) of
                   Inl e \<Rightarrow> Inl e
                 | Inr path_str \<Rightarrow>
                     (case py_str filename of
                        Inl e \<Rightarrow> Inl e
                      | Inr name \<Rightarrow>
                          (let (w0, l) = new_link (repo_path env path_str) name w
                           in case version_output_stage env generate_media_for_web ''ForWeb''
                                     file_full_path base_name (chars_of filename) w0 of
                                Inl e \<Rightarrow> Inl e
                              | Inr (w1, web_version_link) \<Rightarrow>
                                  (case version_output_stage env generate_thumbnail ''Thumbnail''
                                          file_full_path base_name (chars_of filename) w1 of
                                     Inl e \<Rightarrow> Inl e
                                   | Inr (w2, thumbnail_link) \<Rightarrow>
                                       Inr (link_version_output l web_version_link
                                              thumbnail_link w2, l))))))"

text \<open>
  One derivative stage of \<open>upload_reference\<close>: the same statements with no \<open>try\<close> around
  them, and the derivative's own file name as the link's \<open>original_filename\<close>.
\<close>

definition reference_stage ::
  "env \<Rightarrow> (env \<Rightarrow> string \<Rightarrow> error + string) \<Rightarrow> string \<Rightarrow> string \<Rightarrow> string \<Rightarrow> world
     \<Rightarrow> error + (world \<times> nat)" where
  "reference_stage env generate folder file_full_path base_name w =
     (case generate env file_full_path of
        Inl e \<Rightarrow> Inl e
      | Inr temp_full_path \<Rightarrow>
          (let extension = snd (splitext temp_full_path);
               file_name = base_name @ extension;
               path = join (dirname file_full_path) [folder, file_name];
               (w', l) = new_link (repo_path env path) file_name w
           in case move_to_repository env temp_full_path path of
                None \<Rightarrow> Inr (w', l)
              | Some e \<Rightarrow> Inl e))"

text \<open>
  \<open>upload_reference(task, file_object, filename)\<close>; \<open>absolute_path\<close> is
  \<open>task.absolute_path\<close> and \<open>parent w\<close> is \<open>task.references\<close>. No \<open>str\<close> is applied
  here.
\<close>

definition upload_reference :: "env \<Rightarrow> world \<Rightarrow> string \<Rightarrow> pytext \<Rightarrow> error + (world \<times> nat)" where
  "upload_reference env w absolute_path filename =
     (let file_path = join absolute_path [''References/Stalker_Pyramid/'']
      in case upload_file env file_path filename of
           Inl e \<Rightarrow> Inl e
         | Inr file_full_path \<Rightarrow>
             (let base_name = fst (splitext (basename file_full_path));
                  (w0, l) = new_link (repo_path env file_full_path) (chars_of filename) w
              in case reference_stage env generate_media_for_web ''ForWeb''
                        file_full_path base_name w0 of
                   Inl e \<Rightarrow> Inl e
                 | Inr (w1, web_version_link) \<Rightarrow>
                     (case reference_stage env generate_thumbnail ''Thumbnail''
                             file_full_path base_name w1 of
                        Inl e \<Rightarrow> Inl e
                      | Inr (w2, thumbnail_link) \<Rightarrow>
                          Inr (set_thumbnail web_version_link thumbnail_link
                                 (set_thumbnail l web_version_link
                                    (w2\<lparr>parent := parent w2 @ [l]\<rparr>)), l))))"

text \<open>
  The chain below a link: the addresses reached by following \<open>thumbnail\<close>, the link
  itself first. The store is finite, so its size bounds the walk.
\<close>

fun follow :: "link list \<Rightarrow> nat \<Rightarrow> nat \<Rightarrow> nat list" where
  "follow h 0 a = []"
| "follow h (Suc n) a =
     (if a < length h
      then a # (case thumbnail (h ! a) of None \<Rightarrow> [] | Some b \<Rightarrow> follow h n b)
      else [])"

definition link_chain :: "world \<Rightarrow> nat \<Rightarrow> nat list" where
  "link_chain w a = follow (links w) (length (links w)) a"

section \<open>Python floats\<close>

text \<open>
  A Python \<open>float\<close> is an IEEE 754 binary64 number: a finite value (kept as the rational
  it denotes), an infinity or a NaN. The sign of a zero is not kept: every division by a
  zero raises, and \<open>int\<close> maps both zeros to \<open>0\<close>, so no result below depends on it.
\<close>

datatype pyfloat = Finite rat | PosInf | NegInf | NaN

definition pow2 :: "int \<Rightarrow> rat" where
  "pow2 k = (if 0 \<le> k then 2 ^ nat k else 1 / 2 ^ nat (- k))"

function bit_length :: "int \<Rightarrow> nat" where
  "bit_length n = (if n \<le> 0 then 0 else Suc (bit_length (n div 2)))"
  by pat_completeness auto
termination
  by (relation "measure nat") auto

declare bit_length.simps [simp del]

text \<open>
  \<open>ilog2 a\<close> for \<open>a > 0\<close> is the exponent \<open>e\<close> with \<open>2^e \<le> a < 2^(e+1)\<close>, read off the
  integer part of \<open>a\<close>, or of \<open>1 / a\<close> when \<open>a < 1\<close>.
\<close>

definition ilog2 :: "rat \<Rightarrow> int" where
  "ilog2 a =
     (if 1 \<le> a then int (bit_length \<lfloor>a\<rfloor>) - 1
      else - int (bit_length (\<lceil>1 / a\<rceil> - 1)))"

definition round_half_even :: "rat \<Rightarrow> int" where
  "round_half_even r =
     (let f = \<lfloor>r\<rfloor>; d = r - of_int f
      in if d < 1 / 2 then f
         else if 1 / 2 < d then f + 1
         else if even f then f else f + 1)"

text \<open>
  Rounding a real result to the nearest binary64 number, ties to even: 53 significant
  bits \<open>m\<close>, no exponent \<open>q\<close> below \<open>-1074\<close> for the last bit, and an infinity when
  \<open>m * 2^q\<close> reaches \<open>2^1024\<close>.
\<close>

definition round_binary64 :: "rat \<Rightarrow> pyfloat" where
  "round_binary64 x =
     (if x = 0 then Finite 0
      else
        (let a = \<bar>x\<bar>;
             q = max (ilog2 a - 52) (- 1074);
             m = round_half_even (a / pow2 q)
         in if 1024 < int (bit_length m) + q then (if 0 < x then PosInf else NegInf)
            else Finite (if 0 < x then of_int m * pow2 q else - (of_int m * pow2 q))))"

text \<open>\<open>float(n)\<close> for an integer, as in \<open>n * 0.5\<close>: too large a number raises.\<close>

definition float_of_int :: "int \<Rightarrow> error + pyfloat" where
  "float_of_int n =
     (case round_binary64 (of_int n) of
        Finite r \<Rightarrow> Inr (Finite r)
      | _ \<Rightarrow> Inl OverflowError)"

fun float_sign :: "pyfloat \<Rightarrow> int" where
  "float_sign (Finite r) = (if 0 < r then 1 else if r < 0 then - 1 else 0)"
| "float_sign PosInf = 1"
| "float_sign NegInf = - 1"
| "float_sign NaN = 0"

definition signed_inf :: "int \<Rightarrow> pyfloat" where
  "signed_inf sg = (if sg = 0 then NaN else if 0 < sg then PosInf else NegInf)"

fun float_mul :: "pyfloat \<Rightarrow> pyfloat \<Rightarrow> pyfloat" where
  "float_mul NaN y = NaN"
| "float_mul x NaN = NaN"
| "float_mul (Finite a) (Finite b) = round_binary64 (a * b)"
| "float_mul x y = signed_inf (float_sign x * float_sign y)"

text \<open>\<open>x / y\<close> on floats raises \<open>ZeroDivisionError\<close> for a zero divisor, whatever \<open>x\<close> is.\<close>

fun float_div :: "pyfloat \<Rightarrow> pyfloat \<Rightarrow> error + pyfloat" where
  "float_div x (Finite b) =
     (if b = 0 then Inl ZeroDivisionError
      else
        (case x of
           Finite a \<Rightarrow> Inr (round_binary64 (a / b))
         | NaN \<Rightarrow> Inr NaN
         | PosInf \<Rightarrow> Inr (if 0 < b then PosInf else NegInf)
         | NegInf \<Rightarrow> Inr (if 0 < b then NegInf else PosInf)))"
| "float_div NaN y = Inr NaN"
| "float_div x NaN = Inr NaN"
| "float_div (Finite a) y = Inr (Finite 0)"
| "float_div x y = Inr NaN"

text \<open>\<open>int(x)\<close> truncates towards zero; an infinity or a NaN raises.\<close>

fun int_of_float :: "pyfloat \<Rightarrow> error + int" where
  "int_of_float (Finite r) = Inr (if 0 \<le> r then \<lfloor>r\<rfloor> else - \<lfloor>- r\<rfloor>)"
| "int_of_float NaN = Inl ValueError"
| "int_of_float x = Inl OverflowError"

subsection \<open>Numerals read from strings\<close>

definition is_digit :: "char \<Rightarrow> bool" where
  "is_digit c = (c \<in> set ''0123456789'')"

definition digit_value :: "char \<Rightarrow> nat" where
  "digit_value c = length (takeWhile (\<lambda>d. d \<noteq> c) ''0123456789'')"

definition int_of_digits :: "string \<Rightarrow> int" where
  "int_of_digits ds = foldl (\<lambda>n c. 10 * n + int (digit_value c)) 0 ds"

text \<open>An optional sign in front of the rest.\<close>

definition take_sign :: "string \<Rightarrow> int \<times> string" where
  "take_sign s =
     (case s of
        c # t \<Rightarrow> if c = CHR ''-'' then (- 1, t) else if c = CHR ''+'' then (1, t) else (1, s)
      | [] \<Rightarrow> (1, s))"

text \<open>
  \<open>int(s)\<close> for a \<open>str\<close>: surrounding whitespace, an optional sign, then decimal digits
  only; anything else raises \<open>ValueError\<close>.
\<close>

definition int_of_str :: "string \<Rightarrow> error + int" where
  "int_of_str s =
     (case take_sign (strip s) of (sg, ds) \<Rightarrow>
        if ds \<noteq> [] \<and> list_all is_digit ds then Inr (sg * int_of_digits ds)
        else Inl ValueError)"

text \<open>
  \<open>float(s)\<close> for a \<open>str\<close>: surrounding whitespace, an optional sign, then \<open>inf\<close>,
  \<open>infinity\<close> or \<open>nan\<close> in any case, or digits with at most one point, at least one
  digit, and an optional exponent. The decimal value is rounded once.
\<close>

definition exponent_part :: "string \<Rightarrow> int option" where
  "exponent_part s =
     (case s of
        [] \<Rightarrow> Some 0
      | c # t \<Rightarrow>
          if c = CHR ''e'' \<or> c = CHR ''E'' then
            (case take_sign t of (sg, ds) \<Rightarrow>
               if ds \<noteq> [] \<and> list_all is_digit ds then Some (sg * int_of_digits ds)
               else None)
          else None)"

definition pow10 :: "int \<Rightarrow> rat" where
  "pow10 k = (if 0 \<le> k then 10 ^ nat k else 1 / 10 ^ nat (- k))"

definition decimal_value :: "string \<Rightarrow> rat option" where
  "decimal_value s =
     (let ip = takeWhile is_digit s; r1 = dropWhile is_digit s;
          fp = (case r1 of c # t \<Rightarrow> if c = CHR ''.'' then takeWhile is_digit t else [] | [] \<Rightarrow> []);
          r2 = (case r1 of c # t \<Rightarrow> if c = CHR ''.'' then dropWhile is_digit t else r1 | [] \<Rightarrow> [])
      in if ip = [] \<and> fp = [] then None
         else
           (case exponent_part r2 of
              None \<Rightarrow> None
            | Some ex \<Rightarrow>
                Some (of_int (int_of_digits (ip @ fp)) * pow10 (ex - int (length fp)))))"

definition float_of_str :: "string \<Rightarrow> error + pyfloat" where
  "float_of_str s =
     (case take_sign (strip s) of (sg, body) \<Rightarrow>
        if lower body = ''inf'' \<or> lower body = ''infinity''
        then Inr (if 0 < sg then PosInf else NegInf)
        else if lower body = ''nan'' then Inr NaN
        else
          (case decimal_value body of
             None \<Rightarrow> Inl ValueError
           | Some r \<Rightarrow> Inr (round_binary64 (of_int sg * r))))"

section \<open>generate_video_thumbnail: the number of frames\<close>

text \<open>
  \<^verbatim>\<open>
  frame_rate = video_stream.get('r_frame_rate')
  if frame_rate is None:
      frame_rate = float(video_info.get('TAG:framerate', 23.976))
  else:
      if '/' in frame_rate:
          nominator, denominator = frame_rate.split('/')
          frame_rate = float(nominator)/float(denominator)
  \<close>
  A rate without a slash stays the string it was. \<open>video_info\<close> is \<open>None\<close> when the format
  probe closed no block, and \<open>None.get\<close> raises \<open>AttributeError\<close>.
\<close>

datatype rate = RateStr string | RateNum pyfloat

definition default_frame_rate :: pyfloat where
  "default_frame_rate = round_binary64 (23976 / 1000)"

definition get_frame_rate :: "info \<Rightarrow> info option \<Rightarrow> error + rate" where
  "get_frame_rate video_stream video_info =
     (case video_stream ''r_frame_rate'' of
        None \<Rightarrow>
          (case video_info of
             None \<Rightarrow> Inl AttributeError
           | Some vi \<Rightarrow>
               (case vi ''TAG:framerate'' of
                  None \<Rightarrow> Inr (RateNum default_frame_rate)
                | Some t \<Rightarrow> map_sum id RateNum (float_of_str t)))
      | Some frame_rate \<Rightarrow>
          if CHR ''/'' \<in> set frame_rate then
            (case split_on CHR ''/'' frame_rate of
               [nominator, denominator] \<Rightarrow>
                 (case float_of_str nominator of
                    Inl e \<Rightarrow> Inl e
                  | Inr n \<Rightarrow>
                      (case float_of_str denominator of
                         Inl e \<Rightarrow> Inl e
                       | Inr d \<Rightarrow> map_sum id RateNum (float_div n d)))
             | _ \<Rightarrow> Inl ValueError)
          else Inr (RateStr frame_rate))"

text \<open>
  \<^verbatim>\<open>
  duration = video_stream.get('duration')
  if duration == 'N/A':
      duration = float(video_info.get('duration', 1))
  else:
      duration = float(duration)
  \<close>
  \<open>float(None)\<close>, for a stream without the key, raises \<open>TypeError\<close>.
\<close>

definition get_duration :: "info \<Rightarrow> info option \<Rightarrow> error + pyfloat" where
  "get_duration video_stream video_info =
     (case video_stream ''duration'' of
        None \<Rightarrow> Inl TypeError
      | Some duration \<Rightarrow>
          if duration = ''N/A'' then
            (case video_info of
               None \<Rightarrow> Inl AttributeError
             | Some vi \<Rightarrow>
                 (case vi ''duration'' of
                    None \<Rightarrow> float_of_int 1
                  | Some t \<Rightarrow> float_of_str t))
          else float_of_str duration)"

text \<open>
  The whole step, from \<open>nb_frames = video_stream.get('nb_frames')\<close> to
  \<open>nb_frames = int(nb_frames)\<close>. \<open>video_stream\<close> is \<open>None\<close> when no stream was chosen.
  \<open>duration * frame_rate\<close> with a string rate raises \<open>TypeError\<close>.
\<close>

definition estimate_nb_frames :: "info option \<Rightarrow> info option \<Rightarrow> error + int" where
  "estimate_nb_frames video_stream video_info =
     (case video_stream of
        None \<Rightarrow> Inl AttributeError
      | Some vs \<Rightarrow>
          (if vs ''nb_frames'' = None \<or> vs ''nb_frames'' = Some ''N/A'' then
             (case get_frame_rate vs video_info of
                Inl e \<Rightarrow> Inl e
              | Inr frame_rate \<Rightarrow>
                  (case get_duration vs video_info of
                     Inl e \<Rightarrow> Inl e
                   | Inr duration \<Rightarrow>
                       (case frame_rate of
                          RateStr _ \<Rightarrow> Inl TypeError
                        | RateNum fr \<Rightarrow> int_of_float (float_mul duration fr))))
           else
             (case vs ''nb_frames'' of
                None \<Rightarrow> Inl AttributeError
              | Some nb_frames \<Rightarrow> int_of_str nb_frames)))"

text \<open>
  \<^verbatim>\<open>
  start_frame = int(nb_frames * 0.10)
  mid_frame = int(nb_frames * 0.5)
  end_frame = int(nb_frames * 0.90) - 1
  \<close>
\<close>

definition times_constant :: "int \<Rightarrow> rat \<Rightarrow> error + int" where
  "times_constant n c =
     (case float_of_int n of
        Inl e \<Rightarrow> Inl e
      | Inr x \<Rightarrow> int_of_float (float_mul x (round_binary64 c)))"

definition frame_plan :: "int \<Rightarrow> error + (int \<times> int \<times> int)" where
  "frame_plan nb_frames =
     (case times_constant nb_frames (10 / 100) of
        Inl e \<Rightarrow> Inl e
      | Inr start_frame \<Rightarrow>
          (case times_constant nb_frames (5 / 10) of
             Inl e \<Rightarrow> Inl e
           | Inr mid_frame \<Rightarrow>
               (case times_constant nb_frames (90 / 100) of
                  Inl e \<Rightarrow> Inl e
                | Inr e90 \<Rightarrow> Inr (start_frame, mid_frame, e90 - 1))))"

text \<open>
  The frame count \<open>generate_video_thumbnail\<close> works with: the stream chosen by the loop,
  handed to the estimation.
\<close>

definition count_frames :: "media_info \<Rightarrow> error + int" where
  "count_frames mi =
     (case select_video_stream (info_streams mi) None of
        Inl e \<Rightarrow> Inl e
      | Inr video_stream \<Rightarrow> estimate_nb_frames video_stream (info_video mi))"

section \<open>Counting the blocks of a probe output\<close>

text \<open>
  The specification's count, for comparison with the parser: the number of
  \<open>[STREAM]\<close> ... \<open>[/STREAM]\<close> pairs in a sequence of stripped lines, read from the
  left; an opening marker with no closing marker after it ends the count.
\<close>

function count_blocks :: "string list \<Rightarrow> nat" where
  "count_blocks [] = 0"
| "count_blocks (l # ls) =
     (if l = ''[STREAM]'' then
        (case dropWhile (\<lambda>x. x \<noteq> ''[/STREAM]'') ls of
           [] \<Rightarrow> 0
         | c # rest \<Rightarrow> Suc (count_blocks rest))
      else count_blocks ls)"
  by pat_completeness auto
termination
proof (relation "measure length")
  show "wf (measure length)"
    by simp
next
  fix l :: string and ls :: "string list" and c rest
  assume "dropWhile (\<lambda>x. x \<noteq> ''[/STREAM]'') ls = c # rest"
  then have "length (c # rest) \<le> length ls"
    by (metis length_dropWhile_le)
  then show "(rest, l # ls) \<in> measure length"
    by simp
next
  fix l :: string and ls :: "string list"
  show "(ls, l # ls) \<in> measure length"
    by simp
qed

section \<open>Well-formed numeric fields\<close>


section \<open>Example inputs\<close>

text \<open>A probe result with two video streams around an audio stream.\<close>

definition two_video_streams :: "info list" where
  "two_video_streams =
     [[''codec_type'' \<mapsto> ''video'', ''nb_frames'' \<mapsto> ''10''],
      [''codec_type'' \<mapsto> ''audio'', ''nb_frames'' \<mapsto> ''30''],
      [''codec_type'' \<mapsto> ''video'', ''nb_frames'' \<mapsto> ''20'']]"

text \<open>
  An environment in which every collaborator succeeds: the upload is stored under the
  requested name, the generators return temporary files, directories can be created and
  files moved. \<open>empty_world\<close> has no links yet.
\<close>

definition plain_env :: env where
  "plain_env =
     \<lparr>upload_file = (\<lambda>file_path filename. Inr (join file_path [chars_of filename])),
      generate_image_for_web = (\<lambda>p. Inr ''/tmp/w.jpg''),
      generate_image_thumbnail = (\<lambda>p. Inr ''/tmp/t.jpg''),
      generate_video_for_web = (\<lambda>p. Inr ''/tmp/w.webm''),
      generate_video_thumbnail = (\<lambda>p. Inr ''/tmp/t.jpg''),
      makedirs = (\<lambda>d. None),
      move = (\<lambda>a b. None),
      repo_path = (\<lambda>p. p)\<rparr>"

definition empty_world :: world where
  "empty_world = \<lparr>links = [], parent = []\<rparr>"

section \<open>The video stream used for the frame count\<close>

lemma select_video_stream_general:
  "\<forall>s \<in> set streams. s ''codec_type'' \<noteq> None \<Longrightarrow>
   select_video_stream streams v =
     Inr (case filter is_video streams of [] \<Rightarrow> v | x # xs \<Rightarrow> Some (last (x # xs)))"
  by (induction streams arbitrary: v) (auto simp: is_video_def split: list.splits)

text \<open>
  Claim C1, as amended. When every stream record has a \<open>codec_type\<close> and at least one
  of them is a video stream, the record handed to the frame-count estimation is the
  LAST record, in order of appearance, whose \<open>codec_type\<close> is \<open>video\<close>: earlier video
  records do not influence the estimate.
\<close>

theorem count_frames_last_video:
  assumes "\<forall>s \<in> set (info_streams mi). s ''codec_type'' \<noteq> None"
    and "\<exists>s \<in> set (info_streams mi). is_video s"
  shows "select_video_stream (info_streams mi) None
           = Inr (Some (last (filter is_video (info_streams mi)))) \<and>
         count_frames mi
           = estimate_nb_frames (Some (last (filter is_video (info_streams mi)))) (info_video mi)"
proof -
  from assms(2) have ne: "filter is_video (info_streams mi) \<noteq> []"
    by (auto simp: filter_empty_conv)
  with select_video_stream_general [OF assms(1), of None]
  have "select_video_stream (info_streams mi) None
          = Inr (Some (last (filter is_video (info_streams mi))))"
    by (auto split: list.splits)
  then show ?thesis
    by (simp add: count_frames_def)
qed

theorem count_frames_last_video_witness:
  "count_frames \<lparr>info_video = None, info_streams = two_video_streams\<rparr> = Inr 20"
proof -
  have a: "\<forall>s \<in> set (info_streams \<lparr>info_video = None, info_streams = two_video_streams\<rparr>).
             s ''codec_type'' \<noteq> None"
    by (simp add: two_video_streams_def)
  have b: "\<exists>s \<in> set (info_streams \<lparr>info_video = None, info_streams = two_video_streams\<rparr>).
             is_video s"
    by (simp add: two_video_streams_def is_video_def)
  have c: "last (filter is_video two_video_streams)
             = [''codec_type'' \<mapsto> ''video'', ''nb_frames'' \<mapsto> ''20'']"
    by (simp add: two_video_streams_def is_video_def)
  have d: "estimate_nb_frames (Some [''codec_type'' \<mapsto> ''video'', ''nb_frames'' \<mapsto> ''20'']) None
             = Inr 20"
    by code_simp
  from count_frames_last_video [OF a b] c d show ?thesis
    by simp
qed

text \<open>
  The claim as the specification states it (the FIRST video record) fails: with two
  video records the count is the second one's \<open>20\<close>, where the first video record alone
  gives \<open>10\<close>; and a record without \<open>codec_type\<close> after a video record (an empty
  \<open>[STREAM]\<close> block) raises \<open>KeyError\<close>.
\<close>

theorem first_video_stream_counterexample:
  "count_frames \<lparr>info_video = None, info_streams = two_video_streams\<rparr> = Inr 20 \<and>
   estimate_nb_frames (find is_video two_video_streams) None = Inr 10 \<and>
   count_frames
     \<lparr>info_video = None,
      info_streams = [[''codec_type'' \<mapsto> ''video'', ''nb_frames'' \<mapsto> ''10''], Map.empty]\<rparr>
     = Inl KeyError"
  by code_simp

section \<open>The substitution policy\<close>

text \<open>
  Claim C2. Whatever files exist, the triple the code resolves is the triple obtained by
  applying the specification's three rules in the order start, mid, end, each to the
  state the previous one left; and when none of the three files exists, the three
  resolved paths are equal, the same path of a file that does not exist.
\<close>

theorem resolve_thumb_paths_spec:
  "resolve_thumb_paths ex (s, m, e) = spec_substitution ex (s, m, e) \<and>
   (\<not> ex s \<and> \<not> ex m \<and> \<not> ex e \<longrightarrow>
      (case resolve_thumb_paths ex (s, m, e) of (a, b, c) \<Rightarrow> a = b \<and> b = c \<and> \<not> ex a))"
  by (simp add: resolve_thumb_paths_def spec_substitution_def
      check_start_def check_mid_def check_end_def
      spec_rule_start_def spec_rule_mid_def spec_rule_end_def)

theorem resolve_thumb_paths_spec_witness:
  "(case resolve_thumb_paths (\<lambda>p. False) (''s.jpg'', ''m.jpg'', ''e.jpg'') of
      (a, b, c) \<Rightarrow> a = b \<and> b = c) \<and>
   resolve_thumb_paths (\<lambda>p. False) (''s.jpg'', ''m.jpg'', ''e.jpg'')
     = spec_substitution (\<lambda>p. False) (''s.jpg'', ''m.jpg'', ''e.jpg'')"
proof -
  note t = resolve_thumb_paths_spec
    [where ex = "\<lambda>p. False" and s = "''s.jpg''" and m = "''m.jpg''" and e = "''e.jpg''"]
  from t have same: "resolve_thumb_paths (\<lambda>p. False) (''s.jpg'', ''m.jpg'', ''e.jpg'')
      = spec_substitution (\<lambda>p. False) (''s.jpg'', ''m.jpg'', ''e.jpg'')"
    by (rule conjunct1)
  from t have "\<not> False \<and> \<not> False \<and> \<not> False \<longrightarrow>
      (case resolve_thumb_paths (\<lambda>p. False) (''s.jpg'', ''m.jpg'', ''e.jpg'') of
         (a, b, c) \<Rightarrow> a = b \<and> b = c \<and> \<not> False)"
    by (rule conjunct2)
  then have "case resolve_thumb_paths (\<lambda>p. False) (''s.jpg'', ''m.jpg'', ''e.jpg'') of
      (a, b, c) \<Rightarrow> a = b \<and> b = c"
    by simp
  then show ?thesis
    using same by (rule conjI)
qed

text \<open>
  Claim C9. Each resolved path is one of the three planned paths, and when at least one of
  the three files exists, all three resolved paths exist.
\<close>

theorem resolve_thumb_paths_exist:
  "(case resolve_thumb_paths ex (s, m, e) of (a, b, c) \<Rightarrow>
      a \<in> {s, m, e} \<and> b \<in> {s, m, e} \<and> c \<in> {s, m, e} \<and>
      (ex s \<or> ex m \<or> ex e \<longrightarrow> ex a \<and> ex b \<and> ex c))"
  by (simp add: resolve_thumb_paths_def check_start_def check_mid_def check_end_def)

theorem resolve_thumb_paths_exist_witness:
  "(case resolve_thumb_paths (\<lambda>p. p = ''e.jpg'') (''s.jpg'', ''m.jpg'', ''e.jpg'') of
      (a, b, c) \<Rightarrow>
        a \<in> {''s.jpg'', ''m.jpg'', ''e.jpg''} \<and> b \<in> {''s.jpg'', ''m.jpg'', ''e.jpg''} \<and>
        c \<in> {''s.jpg'', ''m.jpg'', ''e.jpg''} \<and> a = ''e.jpg'' \<and> b = ''e.jpg'' \<and> c = ''e.jpg'')"
  using resolve_thumb_paths_exist
    [where ex = "\<lambda>p. p = ''e.jpg''" and s = "''s.jpg''" and m = "''m.jpg''" and e = "''e.jpg''"]
  by (auto split: prod.splits)

section \<open>The probe-output parser\<close>

lemma scan_block_dropWhile:
  "scan_block closing line d buf = Inr (d', buf') \<Longrightarrow>
   dropWhile (\<lambda>x. x \<noteq> closing) (line # map strip buf) = closing # map strip buf'"
proof (induction closing line d buf rule: scan_block.induct)
  case (1 closing line d buf)
  show ?case
  proof (cases "line = closing")
    case True
    with "1.prems" show ?thesis
      by (subst (asm) scan_block.simps) simp
  next
    case False
    from "1.prems" False obtain d1 l rest where
      st: "(if CHR ''='' \<in> set line then store_field line d else Inr d) = Inr d1"
      and buf: "buf = l # rest"
      and rec: "scan_block closing (strip l) d1 rest = Inr (d', buf')"
      by (subst (asm) scan_block.simps) (auto split: sum.splits list.splits)
    from "1.IH" [OF False st buf rec] buf False show ?thesis
      by simp
  qed
qed

lemma scan_streams_count:
  "scan_streams line acc buf = Inr r \<Longrightarrow>
   length r = length acc + (case line of None \<Rightarrow> 0 | Some l \<Rightarrow> count_blocks (l # map strip buf))"
proof (induction line acc buf arbitrary: r rule: scan_streams.induct)
  case (1 acc buf)
  then show ?case by simp
next
  case (2 line acc buf)
  show ?case
  proof (cases "line = ''[STREAM]''")
    case True
    from "2.prems" True obtain d buf' where
      blk: "scan_block ''[/STREAM]'' line Map.empty buf = Inr (d, buf')"
      by (auto split: sum.splits)
    from scan_block_dropWhile [OF blk] True
    have dw: "dropWhile (\<lambda>x. x \<noteq> ''[/STREAM]'') (map strip buf) = ''[/STREAM]'' # map strip buf'"
      by simp
    show ?thesis
    proof (cases buf')
      case Nil
      with "2.prems" True blk dw show ?thesis
        by (auto simp: next_line_def)
    next
      case (Cons x rest)
      with "2.prems" True blk have rec: "scan_streams (Some (strip x)) (acc @ [d]) rest = Inr r"
        by (simp add: next_line_def)
      have nl: "(Some (strip x), rest) = next_line buf'"
        using Cons by (simp add: next_line_def)
      from "2.IH"(1) [OF True blk refl nl refl rec] True dw Cons show ?thesis
        by simp
    qed
  next
    case False
    show ?thesis
    proof (cases buf)
      case Nil
      with "2.prems" False show ?thesis
        by (auto simp: next_line_def)
    next
      case (Cons x rest)
      with "2.prems" False have rec: "scan_streams (Some (strip x)) acc rest = Inr r"
        by (simp add: next_line_def)
      have nl: "(Some (strip x), rest) = next_line buf"
        using Cons by (simp add: next_line_def)
      from "2.IH"(2) [OF False nl refl rec] False Cons show ?thesis
        by simp
    qed
  qed
qed

text \<open>
  Whenever the stream scan returns, it has produced one record per
  \<open>[STREAM]\<close> ... \<open>[/STREAM]\<close> pair of the input.
\<close>

lemma get_stream_info_count:
  "get_stream_info output_buffer = Inr streams \<Longrightarrow>
   length streams = count_blocks (map strip output_buffer)"
  by (cases output_buffer)
    (auto simp: get_stream_info_def simp del: scan_streams.simps dest!: scan_streams_count)

text \<open>
  Claim C3 says that the scan never raises and treats the end of the lines inside an
  unterminated \<open>[STREAM]\<close> block as the end of the block. The code does not: the
  \<open>pop(0)\<close> of the inner loop is outside the \<open>try\<close> that guards the outer loop's
  \<open>pop(0)\<close>, and on these two lines the scan raises \<open>IndexError\<close>.
\<close>

theorem get_stream_info_unterminated:
  "get_stream_info [''[STREAM]\<newline>'', ''codec_type=video\<newline>''] = Inl IndexError"
  by (simp add: get_stream_info_def strip_def is_space_def scan_block.simps
      store_field_def next_line_def)

text \<open>
  Claim C6 says that a line with several \<open>=\<close> is split at the first one, so that
  \<open>key=a=b\<close> stores \<open>a=b\<close> under \<open>key\<close>. The code splits at every \<open>=\<close> and assigns the
  parts to two names: on such a line it raises \<open>ValueError\<close>.
\<close>

theorem get_stream_info_two_equals:
  "get_stream_info [''[STREAM]\<newline>'', ''key=a=b\<newline>'', ''[/STREAM]\<newline>'']
     = Inl ValueError"
  by (simp add: get_stream_info_def strip_def is_space_def scan_block.simps
      store_field_def next_line_def)

section \<open>The frame plan\<close>

text \<open>
  Claim C7. For a frame count of 240 the three planned frames are 24, 120 and 215, as
  computed in binary64 arithmetic; these are \<open>floor(0.10 F)\<close>, \<open>floor(0.50 F)\<close> and
  \<open>floor(0.90 F) - 1\<close>.
\<close>

theorem frame_plan_240:
  "frame_plan 240 = Inr (24, 120, 215) \<and>
   frame_plan 240
     = Inr (\<lfloor>(10 / 100 :: rat) * 240\<rfloor>, \<lfloor>(50 / 100 :: rat) * 240\<rfloor>, \<lfloor>(90 / 100 :: rat) * 240\<rfloor> - 1)"
  by code_simp

section \<open>The converters\<close>

text \<open>
  Claim C8. For each of the five builders, the option set built with the single override
  \<open>{k: v}\<close> is the option set built with no overrides, changed at \<open>k\<close> only, where it
  holds \<open>v\<close>; an empty dictionary behaves as no overrides; the returned output path is
  the same.
\<close>

theorem converter_single_override:
  "snd (convert_to_webm bitrate i out (Some [k \<mapsto> v]))
     = (snd (convert_to_webm bitrate i out None))(k \<mapsto> v) \<and>
   snd (convert_to_h264 i out (Some [k \<mapsto> v]))
     = (snd (convert_to_h264 i out None))(k \<mapsto> v) \<and>
   snd (convert_to_prores i out (Some [k \<mapsto> v]))
     = (snd (convert_to_prores i out None))(k \<mapsto> v) \<and>
   snd (convert_to_mjpeg i out (Some [k \<mapsto> v]))
     = (snd (convert_to_mjpeg i out None))(k \<mapsto> v) \<and>
   snd (convert_to_animated_gif i out (Some [k \<mapsto> v]))
     = (snd (convert_to_animated_gif i out None))(k \<mapsto> v) \<and>
   snd (convert_to_webm bitrate i out (Some Map.empty)) = snd (convert_to_webm bitrate i out None) \<and>
   fst (convert_to_webm bitrate i out (Some [k \<mapsto> v])) = fst (convert_to_webm bitrate i out None)"
  by (simp add: convert_to_webm_def convert_to_h264_def convert_to_prores_def
      convert_to_mjpeg_def convert_to_animated_gif_def given_options_def Let_def)

section \<open>The frame count estimation\<close>



























lemma int_of_float_nonneg: "0 \<le> v \<Longrightarrow> \<exists>k. int_of_float (Finite v) = Inr k \<and> 0 \<le> k"
  by simp




section \<open>The uploads\<close>

lemma move_to_repository_ok:
  assumes "\<forall>a b. move env a b = None"
    and "\<forall>d. makedirs env d = None \<or> makedirs env d = Some OSError"
  shows "move_to_repository env a b = None"
proof -
  from assms(2) have "makedirs env (dirname b) = None \<or> makedirs env (dirname b) = Some OSError"
    by blast
  with assms(1) show ?thesis
    by (auto simp: move_to_repository_def)
qed

text \<open>
  The outcomes of one stage of \<open>upload_version_output\<close>: a \<open>RuntimeError\<close> of the
  generator gives no link, a returned file that is moved gives a fresh link, and any
  other exception of the generator or of the move leaves the stage.
\<close>

lemma stage_runtime_error:
  "generate env full = Inl RuntimeError \<Longrightarrow>
   version_output_stage env generate folder full base filename w = Inr (w, None)"
  by (simp add: version_output_stage_def)

lemma stage_returns:
  "generate env full = Inr t \<Longrightarrow>
   move_to_repository env t (join (dirname full) [folder, base @ snd (splitext t)]) = None \<Longrightarrow>
   version_output_stage env generate folder full base filename w =
     Inr (w\<lparr>links := links w @
              [\<lparr>full_path = repo_path env (join (dirname full) [folder, base @ snd (splitext t)]),
                original_filename = filename, thumbnail = None\<rparr>]\<rparr>,
          Some (length (links w)))"
  by (simp add: version_output_stage_def new_link_def Let_def)

lemma stage_generator_error:
  "generate env full = Inl e \<Longrightarrow> e \<noteq> RuntimeError \<Longrightarrow>
   version_output_stage env generate folder full base filename w = Inl e"
  by (simp add: version_output_stage_def)

lemma stage_move_error:
  "generate env full = Inr t \<Longrightarrow>
   move_to_repository env t (join (dirname full) [folder, base @ snd (splitext t)]) = Some e \<Longrightarrow>
   e \<noteq> RuntimeError \<Longrightarrow>
   version_output_stage env generate folder full base filename w = Inl e"
  by (simp add: version_output_stage_def new_link_def Let_def)

text \<open>
  Once the original is stored and the two \<open>str\<close> conversions have passed, the upload is
  the two stages in sequence, run on the store that holds the new root link.
\<close>

lemma upload_version_output_stages:
  assumes "upload_file env (join absolute_path [''Outputs/Stalker_Pyramid/'']) filename = Inr full"
    and "list_all is_ascii full"
    and "py_str filename = Inr name"
  shows "upload_version_output env w absolute_path filename =
     (case version_output_stage env generate_media_for_web ''ForWeb'' full
             (fst (splitext (basename full))) (chars_of filename)
             (w\<lparr>links := links w @
                  [\<lparr>full_path = repo_path env full, original_filename = name,
                    thumbnail = None\<rparr>]\<rparr>) of
        Inl e \<Rightarrow> Inl e
      | Inr (w1, web_version_link) \<Rightarrow>
          (case version_output_stage env generate_thumbnail ''Thumbnail'' full
                  (fst (splitext (basename full))) (chars_of filename) w1 of
             Inl e \<Rightarrow> Inl e
           | Inr (w2, thumbnail_link) \<Rightarrow>
               Inr (link_version_output (length (links w)) web_version_link thumbnail_link w2,
                    length (links w))))"
  using assms by (simp add: upload_version_output_def new_link_def Let_def)

text \<open>A name that \<open>str\<close> cannot encode fails the upload before any derivative is made.\<close>

lemma upload_version_output_unicode:
  assumes "upload_file env (join absolute_path [''Outputs/Stalker_Pyramid/'']) filename = Inr full"
    and "\<not> list_all is_ascii full"
  shows "upload_version_output env w absolute_path filename = Inl UnicodeEncodeError"
  using assms by (simp add: upload_version_output_def Let_def)

text \<open>\<open>upload_reference\<close> has no handler: every exception of a generator leaves it.\<close>

lemma upload_reference_propagates:
  assumes "upload_file env (join absolute_path [''References/Stalker_Pyramid/'']) filename = Inr full"
    and "generate_media_for_web env full = Inl e"
  shows "upload_reference env w absolute_path filename = Inl e"
  using assms
  by (simp add: upload_reference_def reference_stage_def new_link_def Let_def)

text \<open>
  Claim C5, as amended. In \<open>upload_version_output\<close>, once the original is stored under
  an ASCII path and \<open>str(filename)\<close> has passed:
  \<^item> when the file system operations succeed and each of the two generators either
    returns or raises \<open>RuntimeError\<close> (the error of a file that is neither image nor
    video), the upload completes and returns the root link, appended to the version's
    outputs; the chain below the root has the web-version link only if its generation
    returned, and the thumbnail link below that only if both returned;
  \<^item> an exception of any other kind, raised by either generator or by moving either
    derivative into the repository, leaves the upload (for the thumbnail stage, when
    the web-version stage was completed or skipped).
\<close>

theorem upload_version_output_degrades:
  assumes up: "upload_file env (join absolute_path [''Outputs/Stalker_Pyramid/'']) filename = Inr full"
    and ascii: "list_all is_ascii full"
    and nm: "py_str filename = Inr name"
  shows
    "((\<forall>a b. move env a b = None) \<and>
      (\<forall>d. makedirs env d = None \<or> makedirs env d = Some OSError) \<and>
      (generate_media_for_web env full = Inl RuntimeError \<or>
         (\<exists>t. generate_media_for_web env full = Inr t)) \<and>
      (generate_thumbnail env full = Inl RuntimeError \<or>
         (\<exists>t. generate_thumbnail env full = Inr t)) \<longrightarrow>
        (\<exists>w'. upload_version_output env w absolute_path filename = Inr (w', length (links w)) \<and>
           parent w' = parent w @ [length (links w)] \<and>
           link_chain w' (length (links w)) =
             length (links w) #
               (if isl (generate_media_for_web env full) then []
                else Suc (length (links w)) #
                  (if isl (generate_thumbnail env full) then []
                   else [Suc (Suc (length (links w)))])))) \<and>
     (generate_media_for_web env full = Inl e1 \<and> e1 \<noteq> RuntimeError \<longrightarrow>
        upload_version_output env w absolute_path filename = Inl e1) \<and>
     ((generate_media_for_web env full = Inl RuntimeError \<or>
         (\<exists>t. generate_media_for_web env full = Inr t \<and>
              move_to_repository env t
                (join (dirname full) [''ForWeb'', fst (splitext (basename full)) @ snd (splitext t)])
                = None)) \<and>
      generate_thumbnail env full = Inl e2 \<and> e2 \<noteq> RuntimeError \<longrightarrow>
        upload_version_output env w absolute_path filename = Inl e2) \<and>
     (generate_media_for_web env full = Inr t3 \<and>
      move_to_repository env t3
        (join (dirname full) [''ForWeb'', fst (splitext (basename full)) @ snd (splitext t3)])
        = Some e3 \<and> e3 \<noteq> RuntimeError \<longrightarrow>
        upload_version_output env w absolute_path filename = Inl e3) \<and>
     ((generate_media_for_web env full = Inl RuntimeError \<or>
         (\<exists>t. generate_media_for_web env full = Inr t \<and>
              move_to_repository env t
                (join (dirname full) [''ForWeb'', fst (splitext (basename full)) @ snd (splitext t)])
                = None)) \<and>
      generate_thumbnail env full = Inr t4 \<and>
      move_to_repository env t4
        (join (dirname full) [''Thumbnail'', fst (splitext (basename full)) @ snd (splitext t4)])
        = Some e4 \<and> e4 \<noteq> RuntimeError \<longrightarrow>
        upload_version_output env w absolute_path filename = Inl e4)"
proof (intro conjI impI)
  assume h: "(\<forall>a b. move env a b = None) \<and>
      (\<forall>d. makedirs env d = None \<or> makedirs env d = Some OSError) \<and>
      (generate_media_for_web env full = Inl RuntimeError \<or>
         (\<exists>t. generate_media_for_web env full = Inr t)) \<and>
      (generate_thumbnail env full = Inl RuntimeError \<or>
         (\<exists>t. generate_thumbnail env full = Inr t))"
  then have m: "\<And>a b. move_to_repository env a b = None"
    using move_to_repository_ok [of env] by blast
  from h show "\<exists>w'. upload_version_output env w absolute_path filename = Inr (w', length (links w)) \<and>
           parent w' = parent w @ [length (links w)] \<and>
           link_chain w' (length (links w)) =
             length (links w) #
               (if isl (generate_media_for_web env full) then []
                else Suc (length (links w)) #
                  (if isl (generate_thumbnail env full) then []
                   else [Suc (Suc (length (links w)))]))"
    by (auto simp: upload_version_output_stages [OF up ascii nm] stage_runtime_error
        stage_returns m link_version_output_def set_thumbnail_def link_chain_def nth_append)
next
  assume "generate_media_for_web env full = Inl e1 \<and> e1 \<noteq> RuntimeError"
  then show "upload_version_output env w absolute_path filename = Inl e1"
    by (simp add: upload_version_output_stages [OF up ascii nm] stage_generator_error)
next
  assume "(generate_media_for_web env full = Inl RuntimeError \<or>
         (\<exists>t. generate_media_for_web env full = Inr t \<and>
              move_to_repository env t
                (join (dirname full) [''ForWeb'', fst (splitext (basename full)) @ snd (splitext t)])
                = None)) \<and>
      generate_thumbnail env full = Inl e2 \<and> e2 \<noteq> RuntimeError"
  then show "upload_version_output env w absolute_path filename = Inl e2"
    by (auto simp: upload_version_output_stages [OF up ascii nm] stage_runtime_error
        stage_returns stage_generator_error)
next
  assume "generate_media_for_web env full = Inr t3 \<and>
      move_to_repository env t3
        (join (dirname full) [''ForWeb'', fst (splitext (basename full)) @ snd (splitext t3)])
        = Some e3 \<and> e3 \<noteq> RuntimeError"
  then show "upload_version_output env w absolute_path filename = Inl e3"
    by (simp add: upload_version_output_stages [OF up ascii nm] stage_move_error)
next
  assume "(generate_media_for_web env full = Inl RuntimeError \<or>
         (\<exists>t. generate_media_for_web env full = Inr t \<and>
              move_to_repository env t
                (join (dirname full) [''ForWeb'', fst (splitext (basename full)) @ snd (splitext t)])
                = None)) \<and>
      generate_thumbnail env full = Inr t4 \<and>
      move_to_repository env t4
        (join (dirname full) [''Thumbnail'', fst (splitext (basename full)) @ snd (splitext t4)])
        = Some e4 \<and> e4 \<noteq> RuntimeError"
  then show "upload_version_output env w absolute_path filename = Inl e4"
    by (auto simp: upload_version_output_stages [OF up ascii nm] stage_runtime_error
        stage_returns stage_move_error)
qed

text \<open>
  Claim C10. In \<open>upload_version_output\<close>, once the original is stored under an ASCII
  path and \<open>str(filename)\<close> has passed, when the generation of the web version raised
  \<open>RuntimeError\<close> (so \<open>web_version_link\<close> is \<open>None\<close>), the returned root link has no
  thumbnail reference; and when the thumbnail was generated all the same, its link was
  created (it is the object after the root in the store) but cannot be reached from
  the root.
\<close>

theorem upload_version_output_no_web_version:
  assumes up: "upload_file env (join absolute_path [''Outputs/Stalker_Pyramid/'']) filename = Inr full"
    and ascii: "list_all is_ascii full"
    and nm: "py_str filename = Inr name"
    and mv: "\<forall>a b. move env a b = None"
    and mk: "\<forall>d. makedirs env d = None \<or> makedirs env d = Some OSError"
    and web: "generate_media_for_web env full = Inl RuntimeError"
    and th: "generate_thumbnail env full = Inl RuntimeError \<or> generate_thumbnail env full = Inr t"
  shows "\<exists>w'. upload_version_output env w absolute_path filename = Inr (w', length (links w)) \<and>
           thumbnail (links w' ! length (links w)) = None \<and>
           link_chain w' (length (links w)) = [length (links w)] \<and>
           (generate_thumbnail env full = Inr t \<longrightarrow>
              length (links w') = length (links w) + 2 \<and>
              links w' ! Suc (length (links w)) =
                \<lparr>full_path = repo_path env (join (dirname full)
                     [''Thumbnail'', fst (splitext (basename full)) @ snd (splitext t)]),
                  original_filename = chars_of filename, thumbnail = None\<rparr> \<and>
              Suc (length (links w)) \<notin> set (link_chain w' (length (links w))))"
proof -
  have m: "\<And>a b. move_to_repository env a b = None"
    using move_to_repository_ok [OF mv mk] by blast
  show ?thesis
    using web th
    by (auto simp: upload_version_output_stages [OF up ascii nm] stage_runtime_error
        stage_returns m link_version_output_def set_thumbnail_def link_chain_def nth_append)
qed


lemma ascii_notes: "list_all is_ascii ''/v/Outputs/Stalker_Pyramid/notes.txt''"
  by code_simp

lemma ascii_png: "list_all is_ascii ''/v/Outputs/Stalker_Pyramid/a.png''"
  by code_simp

theorem upload_version_output_degrades_witness:
  "(case upload_version_output plain_env empty_world ''/v'' (UnicodeString ''notes.txt'') of
      Inr (w', l) \<Rightarrow> l = 0 \<and> parent w' = [0] \<and> link_chain w' l = [0]
    | Inl e \<Rightarrow> False) \<and>
   upload_version_output (plain_env\<lparr>generate_image_for_web := (\<lambda>p. Inl IOError)\<rparr>)
     empty_world ''/v'' (UnicodeString ''a.png'') = Inl IOError \<and>
   upload_version_output (plain_env\<lparr>generate_image_thumbnail := (\<lambda>p. Inl IOError)\<rparr>)
     empty_world ''/v'' (UnicodeString ''a.png'') = Inl IOError \<and>
   upload_version_output (plain_env\<lparr>move := (\<lambda>a b. Some IOError)\<rparr>)
     empty_world ''/v'' (UnicodeString ''a.png'') = Inl IOError \<and>
   upload_version_output
     (plain_env\<lparr>move := (\<lambda>a b. if a = ''/tmp/t.jpg'' then Some IOError else None)\<rparr>)
     empty_world ''/v'' (UnicodeString ''a.png'') = Inl IOError"
proof (intro conjI)
  have up: "upload_file plain_env (join ''/v'' [''Outputs/Stalker_Pyramid/''])
      (UnicodeString ''notes.txt'') = Inr ''/v/Outputs/Stalker_Pyramid/notes.txt''"
    by code_simp
  have nm: "py_str (UnicodeString ''notes.txt'') = Inr ''notes.txt''"
    by code_simp
  have web: "generate_media_for_web plain_env ''/v/Outputs/Stalker_Pyramid/notes.txt''
      = Inl RuntimeError"
    by code_simp
  have th: "generate_thumbnail plain_env ''/v/Outputs/Stalker_Pyramid/notes.txt''
      = Inl RuntimeError"
    by code_simp
  have fs: "(\<forall>a b. move plain_env a b = None) \<and>
      (\<forall>d. makedirs plain_env d = None \<or> makedirs plain_env d = Some OSError)"
    by (simp add: plain_env_def)
  from upload_version_output_degrades [OF up ascii_notes nm, where w = empty_world, THEN conjunct1]
  show "case upload_version_output plain_env empty_world ''/v'' (UnicodeString ''notes.txt'') of
      Inr (w', l) \<Rightarrow> l = 0 \<and> parent w' = [0] \<and> link_chain w' l = [0]
    | Inl e \<Rightarrow> False"
    using fs by (auto simp: web th empty_world_def)
next
  let ?env = "plain_env\<lparr>generate_image_for_web := (\<lambda>p. Inl IOError)\<rparr>"
  have up: "upload_file ?env (join ''/v'' [''Outputs/Stalker_Pyramid/''])
      (UnicodeString ''a.png'') = Inr ''/v/Outputs/Stalker_Pyramid/a.png''"
    by code_simp
  have nm: "py_str (UnicodeString ''a.png'') = Inr ''a.png''"
    by code_simp
  have web: "generate_media_for_web ?env ''/v/Outputs/Stalker_Pyramid/a.png'' = Inl IOError"
    by code_simp
  from upload_version_output_degrades
    [OF up ascii_png nm, where w = empty_world and ?e1.0 = IOError,
      THEN conjunct2, THEN conjunct1]
  show "upload_version_output ?env empty_world ''/v'' (UnicodeString ''a.png'') = Inl IOError"
    by (simp add: web)
next
  let ?env = "plain_env\<lparr>generate_image_thumbnail := (\<lambda>p. Inl IOError)\<rparr>"
  have up: "upload_file ?env (join ''/v'' [''Outputs/Stalker_Pyramid/''])
      (UnicodeString ''a.png'') = Inr ''/v/Outputs/Stalker_Pyramid/a.png''"
    by code_simp
  have nm: "py_str (UnicodeString ''a.png'') = Inr ''a.png''"
    by code_simp
  have web: "generate_media_for_web ?env ''/v/Outputs/Stalker_Pyramid/a.png'' = Inr ''/tmp/w.jpg''"
    by code_simp
  have mvw: "move_to_repository ?env ''/tmp/w.jpg''
      (join (dirname ''/v/Outputs/Stalker_Pyramid/a.png'')
         [''ForWeb'', fst (splitext (basename ''/v/Outputs/Stalker_Pyramid/a.png''))
            @ snd (splitext ''/tmp/w.jpg'')]) = None"
    by code_simp
  have th: "generate_thumbnail ?env ''/v/Outputs/Stalker_Pyramid/a.png'' = Inl IOError"
    by code_simp
  from upload_version_output_degrades
    [OF up ascii_png nm, where w = empty_world and ?e2.0 = IOError,
      THEN conjunct2, THEN conjunct2, THEN conjunct1]
  show "upload_version_output ?env empty_world ''/v'' (UnicodeString ''a.png'') = Inl IOError"
    using mvw by (simp add: web th)
next
  let ?env = "plain_env\<lparr>move := (\<lambda>a b. Some IOError)\<rparr>"
  have up: "upload_file ?env (join ''/v'' [''Outputs/Stalker_Pyramid/''])
      (UnicodeString ''a.png'') = Inr ''/v/Outputs/Stalker_Pyramid/a.png''"
    by code_simp
  have nm: "py_str (UnicodeString ''a.png'') = Inr ''a.png''"
    by code_simp
  have web: "generate_media_for_web ?env ''/v/Outputs/Stalker_Pyramid/a.png'' = Inr ''/tmp/w.jpg''"
    by code_simp
  have mvw: "move_to_repository ?env ''/tmp/w.jpg''
      (join (dirname ''/v/Outputs/Stalker_Pyramid/a.png'')
         [''ForWeb'', fst (splitext (basename ''/v/Outputs/Stalker_Pyramid/a.png''))
            @ snd (splitext ''/tmp/w.jpg'')]) = Some IOError"
    by code_simp
  from upload_version_output_degrades
    [OF up ascii_png nm,
      where w = empty_world and ?t3.0 = "''/tmp/w.jpg''" and ?e3.0 = IOError,
      THEN conjunct2, THEN conjunct2, THEN conjunct2, THEN conjunct1]
  show "upload_version_output ?env empty_world ''/v'' (UnicodeString ''a.png'') = Inl IOError"
    using mvw by (simp add: web)
next
  let ?env = "plain_env\<lparr>move := (\<lambda>a b. if a = ''/tmp/t.jpg'' then Some IOError else None)\<rparr>"
  have up: "upload_file ?env (join ''/v'' [''Outputs/Stalker_Pyramid/''])
      (UnicodeString ''a.png'') = Inr ''/v/Outputs/Stalker_Pyramid/a.png''"
    by code_simp
  have nm: "py_str (UnicodeString ''a.png'') = Inr ''a.png''"
    by code_simp
  have web: "generate_media_for_web ?env ''/v/Outputs/Stalker_Pyramid/a.png'' = Inr ''/tmp/w.jpg''"
    by code_simp
  have mvw: "move_to_repository ?env ''/tmp/w.jpg''
      (join (dirname ''/v/Outputs/Stalker_Pyramid/a.png'')
         [''ForWeb'', fst (splitext (basename ''/v/Outputs/Stalker_Pyramid/a.png''))
            @ snd (splitext ''/tmp/w.jpg'')]) = None"
    by code_simp
  have th: "generate_thumbnail ?env ''/v/Outputs/Stalker_Pyramid/a.png'' = Inr ''/tmp/t.jpg''"
    by code_simp
  have mvt: "move_to_repository ?env ''/tmp/t.jpg''
      (join (dirname ''/v/Outputs/Stalker_Pyramid/a.png'')
         [''Thumbnail'', fst (splitext (basename ''/v/Outputs/Stalker_Pyramid/a.png''))
            @ snd (splitext ''/tmp/t.jpg'')]) = Some IOError"
    by code_simp
  from upload_version_output_degrades
    [OF up ascii_png nm,
      where w = empty_world and ?t4.0 = "''/tmp/t.jpg''" and ?e4.0 = IOError,
      THEN conjunct2, THEN conjunct2, THEN conjunct2, THEN conjunct2]
  show "upload_version_output ?env empty_world ''/v'' (UnicodeString ''a.png'') = Inl IOError"
    using mvw mvt by (simp add: web th)
qed

text \<open>
  The claim as the specification states it fails on both uploads: \<open>upload_reference\<close>
  of a text file raises the generator's \<open>RuntimeError\<close>, \<open>upload_version_output\<close> of
  an image the image library cannot read raises its \<open>IOError\<close>, and
  \<open>upload_version_output\<close> of a name with a character outside ASCII raises
  \<open>UnicodeEncodeError\<close> before any derivative is made.
\<close>

theorem derivative_failure_counterexample:
  "upload_reference plain_env empty_world ''/t'' (UnicodeString ''notes.txt'') = Inl RuntimeError \<and>
   upload_version_output (plain_env\<lparr>generate_image_for_web := (\<lambda>p. Inl IOError)\<rparr>)
     empty_world ''/v'' (UnicodeString ''a.png'') = Inl IOError \<and>
   upload_version_output plain_env empty_world ''/v''
     (UnicodeString (''caf'' @ [CHR 0xE9] @ ''.png'')) = Inl UnicodeEncodeError"
  by code_simp

theorem upload_version_output_no_web_version_witness:
  "(case upload_version_output (plain_env\<lparr>generate_image_for_web := (\<lambda>p. Inl RuntimeError)\<rparr>)
          empty_world ''/v'' (UnicodeString ''a.png'') of
      Inr (w', l) \<Rightarrow>
        l = 0 \<and> thumbnail (links w' ! 0) = None \<and> link_chain w' 0 = [0] \<and>
        length (links w') = 2 \<and>
        full_path (links w' ! 1) = ''/v/Outputs/Stalker_Pyramid/Thumbnail/a.jpg''
    | Inl e \<Rightarrow> False)"
proof -
  let ?env = "plain_env\<lparr>generate_image_for_web := (\<lambda>p. Inl RuntimeError)\<rparr>"
  have up: "upload_file ?env (join ''/v'' [''Outputs/Stalker_Pyramid/''])
      (UnicodeString ''a.png'') = Inr ''/v/Outputs/Stalker_Pyramid/a.png''"
    by code_simp
  have nm: "py_str (UnicodeString ''a.png'') = Inr ''a.png''"
    by code_simp
  have mv: "\<forall>a b. move ?env a b = None"
    by (simp add: plain_env_def)
  have mk: "\<forall>d. makedirs ?env d = None \<or> makedirs ?env d = Some OSError"
    by (simp add: plain_env_def)
  have web: "generate_media_for_web ?env ''/v/Outputs/Stalker_Pyramid/a.png'' = Inl RuntimeError"
    by code_simp
  have th: "generate_thumbnail ?env ''/v/Outputs/Stalker_Pyramid/a.png'' = Inr ''/tmp/t.jpg''"
    by code_simp
  have path: "repo_path plain_env (join (dirname ''/v/Outputs/Stalker_Pyramid/a.png'')
        [''Thumbnail'', fst (splitext (basename ''/v/Outputs/Stalker_Pyramid/a.png''))
           @ snd (splitext ''/tmp/t.jpg'')])
      = ''/v/Outputs/Stalker_Pyramid/Thumbnail/a.jpg''"
    by code_simp
  from upload_version_output_no_web_version
    [OF up ascii_png nm mv mk web disjI2 [OF th], where w = empty_world]
  show ?thesis
    by (auto simp: empty_world_def path th)
qed

























end
